theory Spec2Isabelle
  imports Complex_Main
begin

section \<open>Affine transformations of the fatbACPC tools\<close>

text \<open>
  The three scripts \<^verbatim>\<open>contrib/axisAnglesToRotMatToAffine.py\<close>,
  \<^verbatim>\<open>tools/python/decompose.py\<close> and \<^verbatim>\<open>tools/python/axisBounds.py\<close> compose,
  decompose and apply 4x4 affine matrices with numpy.

  Numbers: numpy's \<^verbatim>\<open>float64\<close> values are modelled as the real numbers, so the
  arithmetic of the scripts is exact arithmetic here. The one place where the source
  narrows its numbers is modelled: \<^verbatim>\<open>axisBounds\<close> stores the corner points in a
  \<^verbatim>\<open>float32\<close> array, and \<open>float32\<close> below rounds a real to the nearest number with
  a significand of 24 bits. The rounding of \<^verbatim>\<open>float64\<close> operations, signed zeros,
  infinities and NaN are outside the model; a division by zero, which numpy answers
  with \<^verbatim>\<open>inf\<close> or \<^verbatim>\<open>nan\<close>, is HOL's \<open>x / 0 = 0\<close>, and the statements about
  \<open>decompose\<close> exclude it by their hypotheses.

  Python: \<^verbatim>\<open>collections.Iterable\<close> is read as the abstract base class of iterables,
  as in the Python versions the scripts were written for.

  Arrays: a one-dimensional array is a list, a two-dimensional array the list of its
  rows. Indexing with \<open>!\<close> is meaningful inside the array only; the statements carry the
  shapes the docstrings ask for (\<open>(3, 3)\<close> rotation matrices, \<open>(4, 4)\<close> affines,
  sequences of three values) as hypotheses.
\<close>

subsection \<open>The numpy operations the scripts use\<close>

type_synonym vec = "real list"
type_synonym mat = "real list list"

definition is_mat :: "nat \<Rightarrow> nat \<Rightarrow> mat \<Rightarrow> bool" where
  \<comment> \<open>\<^verbatim>\<open>M.shape == (m, n)\<close>\<close>
  "is_mat m n M \<longleftrightarrow> length M = m \<and> list_all (\<lambda>r. length r = n) M"

definition eye :: "nat \<Rightarrow> mat" where
  \<comment> \<open>\<^verbatim>\<open>np.eye(n)\<close>\<close>
  "eye n = map (\<lambda>i. map (\<lambda>j. if i = j then 1 else 0) [0..<n]) [0..<n]"

definition zeros :: "nat \<Rightarrow> nat \<Rightarrow> mat" where
  \<comment> \<open>\<^verbatim>\<open>np.zeros((m, n))\<close>\<close>
  "zeros m n = replicate m (replicate n 0)"

definition setitem :: "mat \<Rightarrow> nat \<Rightarrow> nat \<Rightarrow> real \<Rightarrow> mat" where
  \<comment> \<open>\<^verbatim>\<open>M[i, j] = v\<close>\<close>
  "setitem M i j v = M[i := (M ! i)[j := v]]"

definition col :: "mat \<Rightarrow> nat \<Rightarrow> vec" where
  \<comment> \<open>\<^verbatim>\<open>M[:, j]\<close>\<close>
  "col M j = map (\<lambda>r. r ! j) M"

definition ncols :: "mat \<Rightarrow> nat" where
  \<comment> \<open>\<^verbatim>\<open>M.shape[1]\<close>\<close>
  "ncols M = (case M of [] \<Rightarrow> 0 | r # _ \<Rightarrow> length r)"

definition mT :: "mat \<Rightarrow> mat" where
  \<comment> \<open>\<^verbatim>\<open>M.T\<close>\<close>
  "mT M = map (col M) [0..<ncols M]"

definition vdot :: "vec \<Rightarrow> vec \<Rightarrow> real" where
  \<comment> \<open>\<^verbatim>\<open>np.dot\<close> of two one-dimensional arrays\<close>
  "vdot u v = sum_list (map2 (*) u v)"

definition dot :: "mat \<Rightarrow> mat \<Rightarrow> mat" where
  \<comment> \<open>\<^verbatim>\<open>np.dot\<close> of two two-dimensional arrays\<close>
  "dot A B = map (\<lambda>r. map (\<lambda>j. vdot r (col B j)) [0..<ncols B]) A"

definition vadd :: "vec \<Rightarrow> vec \<Rightarrow> vec" where
  "vadd u v = map2 (+) u v"

definition vsub :: "vec \<Rightarrow> vec \<Rightarrow> vec" where
  "vsub u v = map2 (-) u v"

definition smul :: "real \<Rightarrow> vec \<Rightarrow> vec" where
  \<comment> \<open>\<^verbatim>\<open>s * v\<close>\<close>
  "smul s v = map (\<lambda>x. s * x) v"

definition sdiv :: "vec \<Rightarrow> real \<Rightarrow> vec" where
  \<comment> \<open>\<^verbatim>\<open>v / s\<close>\<close>
  "sdiv v s = map (\<lambda>x. x / s) v"

definition neg :: "vec \<Rightarrow> vec" where
  "neg v = map uminus v"

definition det3 :: "mat \<Rightarrow> real" where
  \<comment> \<open>\<^verbatim>\<open>linalg.det\<close> of a \<open>(3, 3)\<close> array\<close>
  "det3 M =
     M ! 0 ! 0 * (M ! 1 ! 1 * M ! 2 ! 2 - M ! 1 ! 2 * M ! 2 ! 1)
   - M ! 0 ! 1 * (M ! 1 ! 0 * M ! 2 ! 2 - M ! 1 ! 2 * M ! 2 ! 0)
   + M ! 0 ! 2 * (M ! 1 ! 0 * M ! 2 ! 1 - M ! 1 ! 1 * M ! 2 ! 0)"

definition isclose :: "real \<Rightarrow> real \<Rightarrow> bool" where
  \<comment> \<open>\<^verbatim>\<open>np.isclose(a, b)\<close> with its defaults \<^verbatim>\<open>rtol=1e-05, atol=1e-08\<close>\<close>
  "isclose a b \<longleftrightarrow> \<bar>a - b\<bar> \<le> 1 / 10 ^ 8 + 1 / 10 ^ 5 * \<bar>b\<bar>"

definition arctan2 :: "real \<Rightarrow> real \<Rightarrow> real" where
  \<comment> \<open>\<^verbatim>\<open>np.arctan2(y, x)\<close>: the angle of the point \<open>(x, y)\<close> in \<open>(-pi, pi]\<close>\<close>
  "arctan2 y x =
     (if 0 < x then arctan (y / x)
      else if x < 0 then (if 0 \<le> y then arctan (y / x) + pi else arctan (y / x) - pi)
      else if 0 < y then pi / 2
      else if y < 0 then - (pi / 2)
      else 0)"

definition rint :: "real \<Rightarrow> int" where
  \<comment> \<open>the nearest integer, a tie going to the even one\<close>
  "rint x =
     (let f = \<lfloor>x\<rfloor>; d = x - of_int f
      in if d < 1 / 2 then f else if 1 / 2 < d then f + 1 else if even f then f else f + 1)"

definition float32 :: "real \<Rightarrow> real" where
  \<comment> \<open>the number an element of a \<^verbatim>\<open>dtype=np.float32\<close> array holds after a value is
      assigned to it: the nearest multiple of the unit in the last place, which is
      \<open>2 ^ (e - 23)\<close> for a value in the binade \<open>[2 ^ e, 2 ^ (e + 1))\<close>, with the least
      exponent \<open>-126\<close>; a tie goes to the even significand. Values beyond the largest
      \<^verbatim>\<open>float32\<close>, which numpy stores as \<^verbatim>\<open>inf\<close>, are outside the model.\<close>
  "float32 x =
     (let e = max \<lfloor>log 2 \<bar>x\<bar>\<rfloor> (- 126);
          ulp = 2 powr (of_int e - 23)
      in ulp * of_int (rint (x / ulp)))"

subsection \<open>\<^verbatim>\<open>contrib/axisAnglesToRotMatToAffine.py\<close>\<close>

fun concat_m :: "mat list \<Rightarrow> mat" where
  \<comment> \<open>\<^verbatim>\<open>concat(*xforms)\<close>: the loop over \<^verbatim>\<open>range(1, len(xforms))\<close> is a left fold;
      the source reads \<^verbatim>\<open>xforms[0]\<close> first, so it is never called without a matrix\<close>
  "concat_m [] = []"
| "concat_m (x # xforms) = foldl dot x xforms"

definition axisAnglesToRotMat :: "real \<Rightarrow> real \<Rightarrow> real \<Rightarrow> mat" where
  "axisAnglesToRotMat xrot yrot zrot =
     (let xmat = eye 3;
          ymat = eye 3;
          zmat = eye 3;
          xmat = setitem xmat 1 1 (cos xrot);
          xmat = setitem xmat 1 2 (- sin xrot);
          xmat = setitem xmat 2 1 (sin xrot);
          xmat = setitem xmat 2 2 (cos xrot);
          ymat = setitem ymat 0 0 (cos yrot);
          ymat = setitem ymat 0 2 (sin yrot);
          ymat = setitem ymat 2 0 (- sin yrot);
          ymat = setitem ymat 2 2 (cos yrot);
          zmat = setitem zmat 0 0 (cos zrot);
          zmat = setitem zmat 0 1 (- sin zrot);
          zmat = setitem zmat 1 0 (sin zrot);
          zmat = setitem zmat 1 1 (cos zrot)
      in concat_m [zmat, ymat, xmat])"

datatype rotation =
    AxisAngles real real real  \<comment> \<open>three rotation values, in radians\<close>
  | RotMat mat                 \<comment> \<open>a rotation matrix of shape \<open>(3, 3)\<close>\<close>

definition set_block3 :: "mat \<Rightarrow> mat \<Rightarrow> mat" where
  \<comment> \<open>\<^verbatim>\<open>M[:3, :3] = R\<close> for a \<open>(3, 3)\<close> array \<open>R\<close>\<close>
  "set_block3 M R =
     map (\<lambda>i. if i < 3 then take 3 (R ! i) @ drop 3 (M ! i) else M ! i) [0..<length M]"

definition compose :: "vec \<Rightarrow> vec \<Rightarrow> rotation \<Rightarrow> vec option \<Rightarrow> mat" where
  "compose scales offsets rotations origin =
     (let preRotate = eye 4;
          postRotate = eye 4;
          rotations = (case rotations of
                         AxisAngles xrot yrot zrot \<Rightarrow> axisAnglesToRotMat xrot yrot zrot
                       | RotMat R \<Rightarrow> R);
          (preRotate, postRotate) =
            (case origin of
               None \<Rightarrow> (preRotate, postRotate)
             | Some origin \<Rightarrow>
                 (setitem (setitem (setitem preRotate 0 3 (- (origin ! 0)))
                    1 3 (- (origin ! 1))) 2 3 (- (origin ! 2)),
                  setitem (setitem (setitem postRotate 0 3 (origin ! 0))
                    1 3 (origin ! 1)) 2 3 (origin ! 2)));
          scale = eye 4;
          offset = eye 4;
          rotate = eye 4;
          scale = setitem scale 0 0 (scales ! 0);
          scale = setitem scale 1 1 (scales ! 1);
          scale = setitem scale 2 2 (scales ! 2);
          offset = setitem offset 0 3 (offsets ! 0);
          offset = setitem offset 1 3 (offsets ! 1);
          offset = setitem offset 2 3 (offsets ! 2);
          rotate = set_block3 rotate rotations
      in concat_m [offset, postRotate, rotate, preRotate, scale])"

definition rotMatToAffine :: "mat \<Rightarrow> vec option \<Rightarrow> mat" where
  "rotMatToAffine rotmat origin = compose [1, 1, 1] [0, 0, 0] (RotMat rotmat) origin"

subsection \<open>\<^verbatim>\<open>tools/python/decompose.py\<close>\<close>

definition rotMatToAxisAngles :: "mat \<Rightarrow> real \<times> real \<times> real" where
  \<comment> \<open>the list \<^verbatim>\<open>[xrot, yrot, zrot]\<close> it returns is a triple\<close>
  "rotMatToAxisAngles rotmat =
     (let yrot = sqrt ((rotmat ! 0 ! 0)\<^sup>2 + (rotmat ! 1 ! 0)\<^sup>2)
      in if isclose yrot 0
         then (arctan2 (- (rotmat ! 1 ! 2)) (rotmat ! 1 ! 1),
               arctan2 (- (rotmat ! 2 ! 0)) yrot,
               0)
         else (arctan2 (rotmat ! 2 ! 1) (rotmat ! 2 ! 2),
               arctan2 (- (rotmat ! 2 ! 0)) yrot,
               arctan2 (rotmat ! 1 ! 0) (rotmat ! 0 ! 0)))"

record decompose_locals =
  M1 :: vec
  M2 :: vec
  M3 :: vec
  sx :: real
  sy :: real
  sz :: real
  sxy :: real
  sxz :: real
  syz :: real

definition decompose_shears :: "mat \<Rightarrow> decompose_locals" where
  \<comment> \<open>lines 95 to 138 of \<^verbatim>\<open>decompose\<close>: the local variables after the scales and
      shears have been computed\<close>
  "decompose_shears xform =
     (let xform = mT xform;
          xform = map (take 3) (take 3 xform);
          M1 = xform ! 0;
          M2 = xform ! 1;
          M3 = xform ! 2;
          sx = sqrt (vdot M1 M1);
          sxy = vdot M1 M2;
          M2 = vsub M2 (smul sxy M1);
          sy = sqrt (vdot M2 M2);
          M2 = sdiv M2 sy;
          sxy = sxy / sy;
          sxz = vdot M1 M3;
          syz = vdot M2 M3;
          M3 = vsub (vsub M3 (smul sxz M1)) (smul syz M2);
          sz = sqrt (vdot M3 M3);
          M3 = sdiv M3 sz;
          sxz = sxz / sz;
          syz = sxz / sz
      in \<lparr>M1 = M1, M2 = M2, M3 = M3, sx = sx, sy = sy, sz = sz,
          sxy = sxy, sxz = sxz, syz = syz\<rparr>)"

definition decompose_rotation :: "mat \<Rightarrow> decompose_locals \<Rightarrow> bool \<Rightarrow> vec \<times> vec \<times> rotation" where
  \<comment> \<open>lines 96 and 147 to 158 of \<^verbatim>\<open>decompose\<close>\<close>
  "decompose_rotation xform l angles =
     (let translations = take 3 (mT xform ! 3);
          R = [M1 l, M2 l, M3 l];
          (R, sx) = (if det3 R < 0 then (R[0 := neg (R ! 0)], - sx l) else (R, sx l));
          rotations = (if angles
                       then (case rotMatToAxisAngles (mT R) of
                               (xrot, yrot, zrot) \<Rightarrow> AxisAngles xrot yrot zrot)
                       else RotMat (mT R))
      in ([sx, sy l, sz l], translations, rotations))"

definition decompose :: "mat \<Rightarrow> bool \<Rightarrow> vec \<times> vec \<times> rotation" where
  "decompose xform angles = decompose_rotation xform (decompose_shears xform) angles"

subsection \<open>\<^verbatim>\<open>tools/python/axisBounds.py\<close>\<close>

datatype error =
    ValueError string
  | IndexError

datatype ndarray =
    Scalar real  \<comment> \<open>a number, not iterable\<close>
  | Arr1 vec     \<comment> \<open>a sequence of numbers, \<^verbatim>\<open>ndim == 1\<close>\<close>
  | Arr2 mat     \<comment> \<open>a sequence of rows, \<^verbatim>\<open>ndim == 2\<close>\<close>

datatype axes_arg =
    NoAxes            \<comment> \<open>\<^verbatim>\<open>None\<close>\<close>
  | Axis int          \<comment> \<open>one axis, not iterable\<close>
  | Axes "int list"   \<comment> \<open>a sequence of axes\<close>

definition py_index :: "nat \<Rightarrow> int \<Rightarrow> nat option" where
  \<comment> \<open>the position an index denotes in a dimension of length \<open>n\<close>: negative indices
      count from the end, and \<open>None\<close> is the IndexError\<close>
  "py_index n i =
     (if 0 \<le> i \<and> i < int n then Some (nat i)
      else if - int n \<le> i \<and> i < 0 then Some (nat (int n + i))
      else None)"

definition setcol :: "mat \<Rightarrow> nat \<Rightarrow> vec \<Rightarrow> mat" where
  \<comment> \<open>\<^verbatim>\<open>M[:, j] = v\<close>\<close>
  "setcol M j v = map2 (\<lambda>r x. r[j := x]) M v"

fun fill_loop :: "mat \<Rightarrow> mat \<Rightarrow> (nat \<times> int) list \<Rightarrow> error + mat" where
  \<comment> \<open>\<^verbatim>\<open>for i, ax in enumerate(axes): newp[:, ax] = p[:, i]\<close>\<close>
  "fill_loop newp p [] = Inr newp"
| "fill_loop newp p ((i, ax) # rest) =
     (case py_index 3 ax of
        None \<Rightarrow> Inl IndexError
      | Some j \<Rightarrow> fill_loop (setcol newp j (col p i)) p rest)"

definition fillPoints :: "ndarray \<Rightarrow> axes_arg \<Rightarrow> error + ndarray" where
  \<comment> \<open>\<^verbatim>\<open>_fillPoints\<close>. An array of one or two dimensions always passes the check
      \<^verbatim>\<open>p.ndim != 2\<close> after the reshape.\<close>
  "fillPoints p axes =
     (let p = (case p of Scalar v \<Rightarrow> Arr1 [v] | _ \<Rightarrow> p)
      in case axes of
           NoAxes \<Rightarrow> Inr p
         | _ \<Rightarrow>
           (let axes = (case axes of Axis a \<Rightarrow> [a] | Axes as \<Rightarrow> as | NoAxes \<Rightarrow> []);
                (p, shape1) = (case p of
                                 Arr1 v \<Rightarrow> (map (\<lambda>x. [x]) v, 1)
                               | Arr2 M \<Rightarrow> (M, ncols M)
                               | Scalar v \<Rightarrow> ([[v]], 1))
            in if length axes \<noteq> shape1
               then Inl (ValueError
                 ''Points array shape does not match specified number of axes'')
               else (case fill_loop (zeros (length p) 3) p (enumerate 0 axes) of
                       Inl e \<Rightarrow> Inl e
                     | Inr newp \<Rightarrow> Inr (Arr2 newp))))"

definition take_axes :: "nat \<Rightarrow> mat \<Rightarrow> int list \<Rightarrow> error + mat" where
  \<comment> \<open>\<^verbatim>\<open>t[:, axes]\<close> for a sequence of axes and an array \<open>t\<close> with \<open>n\<close> columns\<close>
  "take_axes n t axes =
     (if list_all (\<lambda>a. py_index n a \<noteq> None) axes
      then Inr (map (\<lambda>r. map (\<lambda>a. r ! the (py_index n a)) axes) t)
      else Inl IndexError)"

definition transform :: "ndarray \<Rightarrow> mat \<Rightarrow> axes_arg \<Rightarrow> bool \<Rightarrow> error + ndarray" where
  "transform p xform axes vector =
     (case fillPoints p axes of
        Inl e \<Rightarrow> Inl e
      | Inr p \<Rightarrow>
        (let linear = map (take 3) (take 3 xform);
             aligned = (case p of
                          Arr1 v \<Rightarrow> ncols linear = length v
                        | Arr2 M \<Rightarrow> list_all (\<lambda>r. length r = ncols linear) M
                        | Scalar v \<Rightarrow> True)
         in if \<not> aligned then Inl (ValueError ''shapes not aligned'')
            else if \<not> vector \<and> list_ex (\<lambda>r. length r < 4) (take 3 xform)
            then Inl IndexError
            else
              (let t = (case p of
                          Arr1 v \<Rightarrow> Arr1 (map (\<lambda>r. vdot r v) linear)
                        | Arr2 M \<Rightarrow> Arr2 (mT (dot linear (mT M)))
                        | Scalar v \<Rightarrow> Arr2 (map (smul v) linear));
                   translation = col (take 3 xform) 3;
                   t = (if vector then t
                        else (case t of
                                Arr1 v \<Rightarrow> Arr1 (vadd v translation)
                              | Arr2 M \<Rightarrow> Arr2 (map (\<lambda>r. vadd r translation) M)
                              | Scalar v \<Rightarrow> Scalar v));
                   t = (case axes of
                          NoAxes \<Rightarrow> Inr t
                        | Axis a \<Rightarrow>
                            (case (t, py_index (length linear) a) of
                               (Arr2 M, Some j) \<Rightarrow> Inr (Arr1 (col M j))
                             | _ \<Rightarrow> Inl IndexError)
                        | Axes as \<Rightarrow>
                            (case t of
                               Arr2 M \<Rightarrow> map_sum id Arr2 (take_axes (length linear) M as)
                             | _ \<Rightarrow> Inl IndexError))
               in case t of
                    Inl e \<Rightarrow> Inl e
                  | Inr (Arr1 [v]) \<Rightarrow> Inr (Scalar v)
                  | Inr (Arr2 [[v]]) \<Rightarrow> Inr (Arr1 [v])
                  | Inr t \<Rightarrow> Inr t)))"

definition lower_char :: "char \<Rightarrow> char" where
  "lower_char c =
     (case map_of (zip ''ABCDEFGHIJKLMNOPQRSTUVWXYZ'' ''abcdefghijklmnopqrstuvwxyz'') c of
        Some d \<Rightarrow> d
      | None \<Rightarrow> c)"

definition lower :: "string \<Rightarrow> string" where
  \<comment> \<open>\<^verbatim>\<open>str.lower\<close> on ASCII text\<close>
  "lower s = map lower_char s"

datatype bounds =
    ScalarBounds real real  \<comment> \<open>\<^verbatim>\<open>(lo[0], hi[0])\<close>, for one axis that is not a sequence\<close>
  | ArrayBounds vec vec     \<comment> \<open>\<^verbatim>\<open>(lo, hi)\<close>\<close>

definition corner_points :: "real \<Rightarrow> real \<Rightarrow> real \<Rightarrow> real \<Rightarrow> real \<Rightarrow> real \<Rightarrow> mat" where
  \<comment> \<open>lines 205 to 212: the eight rows written into \<^verbatim>\<open>points\<close>\<close>
  "corner_points x0 y0 z0 x y z =
     [[x0, y0, z0],
      [x0, y0, z],
      [x0, y, z0],
      [x0, y, z],
      [x, y0, z0],
      [x, y0, z],
      [x, y, z0],
      [x, y, z]]"

definition voxel_corners ::
  "string \<Rightarrow> string option \<Rightarrow> real \<Rightarrow> real \<Rightarrow> real \<Rightarrow> real \<Rightarrow> mat" where
  \<comment> \<open>lines 181 to 212 of \<^verbatim>\<open>axisBounds\<close>: the corners of the voxel grid. The array
      \<^verbatim>\<open>points\<close> is created with \<^verbatim>\<open>dtype=np.float32\<close> (line 181), so each coordinate
      written into it is rounded to a \<^verbatim>\<open>float32\<close>.\<close>
  "voxel_corners origin boundary offset x y z =
     (let (x0, y0, z0, x, y, z) =
            (if origin = ''centre''
             then (- 0.5, - 0.5, - 0.5, x - 0.5, y - 0.5, z - 0.5)
             else (0, 0, 0, x, y, z));
          (x0, y0, z0) =
            (if boundary \<in> set [Some ''low'', Some ''both'']
             then (x0 + offset, y0 + offset, z0 + offset)
             else (x0, y0, z0));
          (x, y, z) =
            (if boundary \<in> set [Some ''high'', Some ''both'']
             then (x - offset, y - offset, z - offset)
             else (x, y, z))
      in corner_points (float32 x0) (float32 y0) (float32 z0)
           (float32 x) (float32 y) (float32 z))"

definition axisBounds ::
  "int list \<Rightarrow> mat \<Rightarrow> axes_arg \<Rightarrow> string \<Rightarrow> string option \<Rightarrow> real \<Rightarrow> error + bounds" where
  "axisBounds shape xform axes origin boundary offset =
     (let origin = lower origin;
          origin = (if origin = ''center'' then ''centre'' else origin)
      in if origin \<notin> set [''centre'', ''corner'']
         then Inl (ValueError (''Invalid origin value: '' @ origin))
         else if boundary \<notin> set [Some ''low'', Some ''high'', Some ''both'', None]
         then Inl (ValueError (''Invalid boundary value: '' @
                     (case boundary of Some b \<Rightarrow> b | None \<Rightarrow> ''None'')))
         else
           (let (scalar, axes) = (case axes of
                                    NoAxes \<Rightarrow> (False, [0, 1, 2])
                                  | Axis a \<Rightarrow> (True, [a])
                                  | Axes as \<Rightarrow> (False, as))
            in case take 3 shape of
                 [x, y, z] \<Rightarrow>
                   (let points = voxel_corners origin boundary offset
                                   (real_of_int x) (real_of_int y) (real_of_int z)
                    in case transform (Arr2 points) xform NoAxes False of
                         Inl e \<Rightarrow> Inl e
                       | Inr (Arr2 tx) \<Rightarrow>
                           (case take_axes (ncols tx) tx axes of
                              Inl e \<Rightarrow> Inl e
                            | Inr txa \<Rightarrow>
                                (let lo = map (\<lambda>c. Min (set c)) (mT txa);
                                     hi = map (\<lambda>c. Max (set c)) (mT txa)
                                 in if scalar then Inr (ScalarBounds (lo ! 0) (hi ! 0))
                                    else Inr (ArrayBounds lo hi)))
                       | Inr _ \<Rightarrow> Inl IndexError)
               | _ \<Rightarrow> Inl (ValueError ''not enough values to unpack'')))"

definition bounds_lo :: "bounds \<Rightarrow> vec" where
  \<comment> \<open>the low bounds, one for each requested axis\<close>
  "bounds_lo b = (case b of ScalarBounds lo hi \<Rightarrow> [lo] | ArrayBounds lo hi \<Rightarrow> lo)"

definition bounds_hi :: "bounds \<Rightarrow> vec" where
  \<comment> \<open>the high bounds, one for each requested axis\<close>
  "bounds_hi b = (case b of ScalarBounds lo hi \<Rightarrow> [hi] | ArrayBounds lo hi \<Rightarrow> hi)"

subsection \<open>The variant of \<^verbatim>\<open>decompose\<close> with the yz shear rescaled from itself\<close>

definition decompose_shears_corrected :: "mat \<Rightarrow> decompose_locals" where
  \<comment> \<open>\<open>decompose_shears\<close> with line 138 read as \<^verbatim>\<open>syz = syz / sz\<close>\<close>
  "decompose_shears_corrected xform =
     (let xform = mT xform;
          xform = map (take 3) (take 3 xform);
          M1 = xform ! 0;
          M2 = xform ! 1;
          M3 = xform ! 2;
          sx = sqrt (vdot M1 M1);
          sxy = vdot M1 M2;
          M2 = vsub M2 (smul sxy M1);
          sy = sqrt (vdot M2 M2);
          M2 = sdiv M2 sy;
          sxy = sxy / sy;
          sxz = vdot M1 M3;
          syz = vdot M2 M3;
          M3 = vsub (vsub M3 (smul sxz M1)) (smul syz M2);
          sz = sqrt (vdot M3 M3);
          M3 = sdiv M3 sz;
          sxz = sxz / sz;
          syz = syz / sz
      in \<lparr>M1 = M1, M2 = M2, M3 = M3, sx = sx, sy = sy, sz = sz,
          sxy = sxy, sxz = sxz, syz = syz\<rparr>)"

definition decompose_corrected :: "mat \<Rightarrow> bool \<Rightarrow> vec \<times> vec \<times> rotation" where
  "decompose_corrected xform angles =
     decompose_rotation xform (decompose_shears_corrected xform) angles"

subsection \<open>Notions the statements use\<close>

definition orthonormal :: "mat \<Rightarrow> bool" where
  \<comment> \<open>columns and rows of unit length and mutually orthogonal\<close>
  "orthonormal R \<longleftrightarrow> dot (mT R) R = eye 3 \<and> dot R (mT R) = eye 3"

definition is_rotation :: "mat \<Rightarrow> bool" where
  \<comment> \<open>an orthonormal \<open>(3, 3)\<close> matrix of determinant \<open>+1\<close>\<close>
  "is_rotation R \<longleftrightarrow> is_mat 3 3 R \<and> orthonormal R \<and> det3 R = 1"

definition requested :: "axes_arg \<Rightarrow> int list" where
  \<comment> \<open>the axes a call of \<^verbatim>\<open>axisBounds\<close> asks for (lines 172 to 177)\<close>
  "requested axes = (case axes of NoAxes \<Rightarrow> [0, 1, 2] | Axis a \<Rightarrow> [a] | Axes as \<Rightarrow> as)"

definition raises_ValueError :: "error + 'a \<Rightarrow> bool" where
  "raises_ValueError r = (case r of Inl (ValueError msg) \<Rightarrow> True | _ \<Rightarrow> False)"

definition world :: "mat \<Rightarrow> mat \<Rightarrow> mat" where
  \<comment> \<open>the points \<open>P\<close> in world coordinates: linear part times point plus translation\<close>
  "world xform P =
     map (\<lambda>p. map (\<lambda>i. xform ! i ! 0 * p ! 0 + xform ! i ! 1 * p ! 1
                          + xform ! i ! 2 * p ! 2 + xform ! i ! 3) [0, 1, 2]) P"

definition grid_corners :: "int list \<Rightarrow> string \<Rightarrow> string option \<Rightarrow> real \<Rightarrow> mat" where
  \<comment> \<open>the corners of the voxel grid in closed form\<close>
  "grid_corners shape origin boundary offset =
     (let c = (if origin = ''centre'' then 1 / 2 else 0);
          l = (if boundary \<in> {Some ''low'', Some ''both''} then offset else 0);
          h = (if boundary \<in> {Some ''high'', Some ''both''} then offset else 0)
      in corner_points (float32 (l - c)) (float32 (l - c)) (float32 (l - c))
           (float32 (real_of_int (shape ! 0) - c - h))
           (float32 (real_of_int (shape ! 1) - c - h))
           (float32 (real_of_int (shape ! 2) - c - h)))"

definition expo :: "real \<Rightarrow> int" where
  \<comment> \<open>the exponent of the binade in which \<open>float32\<close> rounds\<close>
  "expo x = max \<lfloor>log 2 \<bar>x\<bar>\<rfloor> (- 126)"

section \<open>Properties\<close>

subsection \<open>Evaluating the array operations\<close>

lemma upt3: "[0..<3] = [0, 1, 2]"
  by (simp add: upt_rec)

lemma upt4: "[0..<4] = [0, 1, 2, 3]"
  by (simp add: upt_rec)

lemma eye3: "eye 3 = [[1, 0, 0], [0, 1, 0], [0, 0, 1]]"
  by (simp add: eye_def upt3)

lemma eye4: "eye 4 = [[1, 0, 0, 0], [0, 1, 0, 0], [0, 0, 1, 0], [0, 0, 0, 1]]"
  by (simp add: eye_def upt4)

lemmas np_defs =
  setitem_def set_block3_def dot_def ncols_def col_def vdot_def mT_def upt3 upt4 eye3 eye4

lemma list3: "length xs = 3 \<Longrightarrow> \<exists>a b c. xs = [a, b, c]"
  by (auto simp: length_Suc_conv eval_nat_numeral)

lemma list4: "length xs = 4 \<Longrightarrow> \<exists>a b c d. xs = [a, b, c, d]"
  by (auto simp: length_Suc_conv eval_nat_numeral)

lemma mat33:
  assumes "is_mat 3 3 M"
  obtains a b c d e f g h i where "M = [[a, b, c], [d, e, f], [g, h, i]]"
proof -
  from assms obtain r0 r1 r2 where M: "M = [r0, r1, r2]"
    unfolding is_mat_def using list3 by blast
  with assms have "length r0 = 3" "length r1 = 3" "length r2 = 3"
    by (simp_all add: is_mat_def)
  then obtain a b c d e f g h i where "r0 = [a, b, c]" "r1 = [d, e, f]" "r2 = [g, h, i]"
    using list3 by metis
  with M that show thesis by blast
qed

lemma mat44:
  assumes "is_mat 4 4 M"
  obtains a0 a1 a2 a3 b0 b1 b2 b3 c0 c1 c2 c3 d0 d1 d2 d3
  where "M = [[a0, a1, a2, a3], [b0, b1, b2, b3], [c0, c1, c2, c3], [d0, d1, d2, d3]]"
proof -
  from assms obtain r0 r1 r2 r3 where M: "M = [r0, r1, r2, r3]"
    unfolding is_mat_def using list4 by blast
  with assms have "length r0 = 4" "length r1 = 4" "length r2 = 4" "length r3 = 4"
    by (simp_all add: is_mat_def)
  then obtain a0 a1 a2 a3 b0 b1 b2 b3 c0 c1 c2 c3 d0 d1 d2 d3
    where "r0 = [a0, a1, a2, a3]" "r1 = [b0, b1, b2, b3]"
      "r2 = [c0, c1, c2, c3]" "r3 = [d0, d1, d2, d3]"
    using list4 by metis
  with M that show thesis by blast
qed

lemma axisAnglesToRotMat_eq:
  "axisAnglesToRotMat x y z =
     [[cos z * cos y, cos z * sin y * sin x - sin z * cos x,
       cos z * sin y * cos x + sin z * sin x],
      [sin z * cos y, cos z * cos x + sin z * sin y * sin x,
       sin z * sin y * cos x - cos z * sin x],
      [- sin y, cos y * sin x, cos y * cos x]]"
  by (simp add: axisAnglesToRotMat_def np_defs)

subsection \<open>The composed matrix\<close>

text \<open>
  Claim C8. For all scales, offsets, rotations (three angles or a \<open>(3, 3)\<close> matrix) and
  every optional origin, the matrix that \<open>compose\<close> returns is a \<open>(4, 4)\<close> matrix
  whose bottom row is exactly \<open>(0, 0, 0, 1)\<close>.
\<close>

theorem compose_bottom_row:
  assumes "3 \<le> length scales" and "3 \<le> length offsets"
    and "case rotations of AxisAngles xrot yrot zrot \<Rightarrow> True | RotMat R \<Rightarrow> is_mat 3 3 R"
    and "case origin of None \<Rightarrow> True | Some og \<Rightarrow> 3 \<le> length og"
  shows "is_mat 4 4 (compose scales offsets rotations origin) \<and>
         compose scales offsets rotations origin ! 3 = [0, 0, 0, 1]"
proof (cases rotations)
  case (AxisAngles x y z)
  then show ?thesis
    by (cases origin) (simp_all add: compose_def axisAnglesToRotMat_def is_mat_def np_defs)
next
  case (RotMat R)
  with assms(3) have "is_mat 3 3 R" by simp
  then obtain a b c d e f g h i where "R = [[a, b, c], [d, e, f], [g, h, i]]"
    by (rule mat33)
  with RotMat show ?thesis
    by (cases origin) (simp_all add: compose_def is_mat_def np_defs)
qed

theorem compose_bottom_row_witness:
  "is_mat 4 4 (compose [2, 3, 4] [1, 2, 3] (RotMat [[0, - 1, 0], [1, 0, 0], [0, 0, 1]])
     (Some [5, 6, 7])) \<and>
   compose [2, 3, 4] [1, 2, 3] (RotMat [[0, - 1, 0], [1, 0, 0], [0, 0, 1]])
     (Some [5, 6, 7]) ! 3 = [0, 0, 0, 1]"
  using compose_bottom_row [of "[2, 3, 4]" "[1, 2, 3]"
      "RotMat [[0, - 1, 0], [1, 0, 0], [0, 0, 1]]" "Some [5, 6, 7]"]
  by (simp add: is_mat_def)

subsection \<open>The angle of a point\<close>

lemma sqrt_one_plus_div:
  fixes x y :: real
  assumes "x \<noteq> 0"
  shows "sqrt (1 + (y / x)\<^sup>2) = sqrt (x\<^sup>2 + y\<^sup>2) / \<bar>x\<bar>"
proof -
  have "1 + (y / x)\<^sup>2 = (x\<^sup>2 + y\<^sup>2) / x\<^sup>2"
    using assms by (simp add: field_simps power2_eq_square)
  then show ?thesis by (simp add: real_sqrt_divide)
qed

lemma cos_sin_arctan_div:
  fixes x y :: real
  assumes "x \<noteq> 0"
  shows "cos (arctan (y / x)) = \<bar>x\<bar> / sqrt (x\<^sup>2 + y\<^sup>2)"
    and "sin (arctan (y / x)) = (y / x) * \<bar>x\<bar> / sqrt (x\<^sup>2 + y\<^sup>2)"
  using assms by (simp_all add: cos_arctan sin_arctan sqrt_one_plus_div)

lemma cos_arctan2:
  assumes "x \<noteq> 0 \<or> y \<noteq> 0"
  shows "cos (arctan2 y x) = x / sqrt (x\<^sup>2 + y\<^sup>2)"
proof -
  consider "0 < x" | "x < 0" | "x = 0" "y \<noteq> 0" using assms by fastforce
  then show ?thesis
  proof cases
    case 1
    then show ?thesis by (simp add: arctan2_def cos_sin_arctan_div)
  next
    case 2
    then show ?thesis by (simp add: arctan2_def cos_sin_arctan_div)
  next
    case 3
    then show ?thesis by (simp add: arctan2_def)
  qed
qed

lemma sin_arctan2:
  assumes "x \<noteq> 0 \<or> y \<noteq> 0"
  shows "sin (arctan2 y x) = y / sqrt (x\<^sup>2 + y\<^sup>2)"
proof -
  consider "0 < x" | "x < 0" | "x = 0" "y \<noteq> 0" using assms by fastforce
  then show ?thesis
  proof cases
    case 1
    then show ?thesis by (simp add: arctan2_def cos_sin_arctan_div)
  next
    case 2
    then show ?thesis by (simp add: arctan2_def cos_sin_arctan_div)
  next
    case 3
    then show ?thesis by (auto simp: arctan2_def)
  qed
qed

lemma arctan2_range: "- pi < arctan2 y x \<and> arctan2 y x \<le> pi"
proof -
  have b: "- (pi / 2) < arctan (y / x)" "arctan (y / x) < pi / 2"
    using arctan_bounded [of "y / x"] by simp_all
  consider "0 < x" | "x < 0" "0 \<le> y" | "x < 0" "y < 0" | "x = 0" by fastforce
  then show ?thesis
  proof cases
    case 1
    with b show ?thesis by (simp add: arctan2_def)
  next
    case 2
    then have "y / x \<le> 0" by (simp add: divide_nonneg_neg)
    then have "arctan (y / x) \<le> 0" using arctan_le_zero_iff by blast
    moreover have "arctan2 y x = arctan (y / x) + pi" using 2 by (simp add: arctan2_def)
    ultimately show ?thesis using b pi_gt_zero by linarith
  next
    case 3
    then have "0 < y / x" by (simp add: divide_neg_neg)
    then have "0 < arctan (y / x)" using zero_less_arctan_iff by blast
    moreover have "arctan2 y x = arctan (y / x) - pi" using 3 by (simp add: arctan2_def)
    ultimately show ?thesis using b pi_gt_zero by linarith
  next
    case 4
    then have "arctan2 y x = pi / 2 \<or> arctan2 y x = - (pi / 2) \<or> arctan2 y x = 0"
      by (simp add: arctan2_def)
    then show ?thesis using pi_gt_zero by linarith
  qed
qed

lemma arctan2_sin_cos:
  assumes "0 < r" and "- pi < t" and "t \<le> pi"
  shows "arctan2 (r * sin t) (r * cos t) = t"
proof -
  have nz: "r * cos t \<noteq> 0 \<or> r * sin t \<noteq> 0"
  proof (rule ccontr)
    assume "\<not> ?thesis"
    with assms(1) have "cos t = 0" "sin t = 0" by simp_all
    with sin_cos_squared_add [of t] show False by simp
  qed
  have "(r * cos t)\<^sup>2 + (r * sin t)\<^sup>2 = r\<^sup>2"
    using sin_cos_squared_add [of t] by algebra
  then have s: "sqrt ((r * cos t)\<^sup>2 + (r * sin t)\<^sup>2) = r"
    using assms(1) by simp
  have "sin (arctan2 (r * sin t) (r * cos t)) = sin t"
    "cos (arctan2 (r * sin t) (r * cos t)) = cos t"
    using assms(1) by (simp_all add: sin_arctan2 [OF nz] cos_arctan2 [OF nz] s)
  then obtain n :: int where n: "arctan2 (r * sin t) (r * cos t) = t + 2 * pi * n"
    using sin_cos_eq_iff by blast
  have "- pi < t + 2 * pi * n" "t + 2 * pi * n \<le> pi"
    using arctan2_range [of "r * sin t" "r * cos t"] n by simp_all
  with assms have lo: "- (2 * pi) < 2 * pi * n" and hi: "2 * pi * n < 2 * pi" by linarith+
  have "n < 1"
  proof (rule ccontr)
    assume "\<not> n < 1"
    then have "1 \<le> real_of_int n" by simp
    then have "2 * pi * 1 \<le> 2 * pi * real_of_int n"
      using pi_gt_zero by (intro mult_left_mono) simp_all
    with hi show False by simp
  qed
  moreover have "- 1 < n"
  proof (rule ccontr)
    assume "\<not> - 1 < n"
    then have "real_of_int n \<le> - 1" by simp
    then have "2 * pi * real_of_int n \<le> 2 * pi * (- 1)"
      using pi_gt_zero by (intro mult_left_mono) simp_all
    with lo show False by simp
  qed
  ultimately have "n = 0" by linarith
  with n show ?thesis by simp
qed

lemma isclose_zero: "isclose v 0 \<longleftrightarrow> \<bar>v\<bar> \<le> 1 / 10 ^ 8"
  by (simp add: isclose_def)

subsection \<open>Rotation matrices\<close>

lemma rot_cofactors:
  fixes a :: real
  assumes "a * a + d * d + g * g = 1" "b * b + e * e + h * h = 1" "c * c + f * f + i * i = 1"
    "a * b + d * e + g * h = 0" "a * c + d * f + g * i = 0" "b * c + e * f + h * i = 0"
    "a * a + b * b + c * c = 1" "d * d + e * e + f * f = 1" "g * g + h * h + i * i = 1"
    "a * d + b * e + c * f = 0" "a * g + b * h + c * i = 0" "d * g + e * h + f * i = 0"
    "a * (e * i - f * h) - b * (d * i - f * g) + c * (d * h - e * g) = 1"
  shows "i = a * e - b * d" "h = c * d - a * f"
  using assms by algebra+

lemma is_rotation_entries:
  assumes "is_rotation R"
  obtains a b c d e f g h i where "R = [[a, b, c], [d, e, f], [g, h, i]]"
    "a * a + d * d + g * g = 1" "b * b + e * e + h * h = 1" "c * c + f * f + i * i = 1"
    "a * b + d * e + g * h = 0" "a * c + d * f + g * i = 0" "b * c + e * f + h * i = 0"
    "a * a + b * b + c * c = 1" "d * d + e * e + f * f = 1" "g * g + h * h + i * i = 1"
    "a * d + b * e + c * f = 0" "a * g + b * h + c * i = 0" "d * g + e * h + f * i = 0"
    "a * (e * i - f * h) - b * (d * i - f * g) + c * (d * h - e * g) = 1"
proof -
  from assms have "is_mat 3 3 R" by (simp add: is_rotation_def)
  then obtain a b c d e f g h i where R: "R = [[a, b, c], [d, e, f], [g, h, i]]"
    by (rule mat33)
  from assms have "dot (mT R) R = eye 3" "dot R (mT R) = eye 3" "det3 R = 1"
    by (simp_all add: is_rotation_def orthonormal_def)
  then have "a * a + d * d + g * g = 1" "b * b + e * e + h * h = 1" "c * c + f * f + i * i = 1"
    "a * b + d * e + g * h = 0" "a * c + d * f + g * i = 0" "b * c + e * f + h * i = 0"
    "a * a + b * b + c * c = 1" "d * d + e * e + f * f = 1" "g * g + h * h + i * i = 1"
    "a * d + b * e + c * f = 0" "a * g + b * h + c * i = 0" "d * g + e * h + f * i = 0"
    "a * (e * i - f * h) - b * (d * i - f * g) + c * (d * h - e * g) = 1"
    unfolding R by (simp_all add: np_defs det3_def add.assoc)
  with R that show thesis by blast
qed

lemma trig_rotation:
  fixes c1 :: real
  assumes "s1 * s1 + c1 * c1 = 1" "s2 * s2 + c2 * c2 = 1" "s3 * s3 + c3 * c3 = 1"
  shows "is_rotation
     [[c3 * c2, c3 * s2 * s1 - s3 * c1, c3 * s2 * c1 + s3 * s1],
      [s3 * c2, c3 * c1 + s3 * s2 * s1, s3 * s2 * c1 - c3 * s1],
      [- s2, c2 * s1, c2 * c1]]"
  unfolding is_rotation_def orthonormal_def
  apply (simp add: np_defs det3_def is_mat_def)
  apply (intro conjI)
  using assms apply algebra+
  done

lemma axisAnglesToRotMat_rotation: "is_rotation (axisAnglesToRotMat x y z)"
  unfolding axisAnglesToRotMat_eq
  by (rule trig_rotation) (simp_all add: power2_eq_square [symmetric])

text \<open>
  Claim C2. For every orthonormal \<open>(3, 3)\<close> rotation matrix \<open>R\<close> of determinant \<open>+1\<close>
  whose \<open>yLen = sqrt (R[0,0]\<^sup>2 + R[1,0]\<^sup>2)\<close> is not close to zero,
  \<open>axisAnglesToRotMat\<close> applied to the three angles that \<open>rotMatToAxisAngles R\<close> returns
  gives \<open>R\<close> back. In exact arithmetic the two matrices are equal, element by element,
  so they agree within every tolerance.
\<close>

theorem rotMatToAxisAngles_roundtrip:
  assumes rot: "is_rotation R"
    and far: "\<not> isclose (sqrt ((R ! 0 ! 0)\<^sup>2 + (R ! 1 ! 0)\<^sup>2)) 0"
  shows "(case rotMatToAxisAngles R of (xrot, yrot, zrot) \<Rightarrow> axisAnglesToRotMat xrot yrot zrot)
           = R"
proof -
  from rot obtain a b c d e f g h i where R: "R = [[a, b, c], [d, e, f], [g, h, i]]"
    and o: "a * a + d * d + g * g = 1" "b * b + e * e + h * h = 1" "c * c + f * f + i * i = 1"
    "a * b + d * e + g * h = 0" "a * c + d * f + g * i = 0" "b * c + e * f + h * i = 0"
    "a * a + b * b + c * c = 1" "d * d + e * e + f * f = 1" "g * g + h * h + i * i = 1"
    "a * d + b * e + c * f = 0" "a * g + b * h + c * i = 0" "d * g + e * h + f * i = 0"
    "a * (e * i - f * h) - b * (d * i - f * g) + c * (d * h - e * g) = 1"
    by (rule is_rotation_entries)
  define L where "L = sqrt (a\<^sup>2 + d\<^sup>2)"
  from far have "L \<noteq> 0" by (auto simp: R L_def isclose_zero)
  moreover have "0 \<le> L" by (simp add: L_def)
  ultimately have Lpos: "0 < L" by simp
  have L2: "L * L = a * a + d * d"
    by (simp add: L_def power2_eq_square [symmetric])
  have ad: "a \<noteq> 0 \<or> d \<noteq> 0" using \<open>L \<noteq> 0\<close> by (auto simp: L_def)
  have hi: "i \<noteq> 0 \<or> h \<noteq> 0"
  proof (rule ccontr)
    assume "\<not> ?thesis"
    then have "g * g = 1" using o(9) by simp
    with o(1) have "a * a + d * d = 0" by simp
    with L2 Lpos show False by simp
  qed
  have len_y: "sqrt (L\<^sup>2 + g\<^sup>2) = 1"
    using o(1) L2 by (simp add: power2_eq_square)
  have "i\<^sup>2 + h\<^sup>2 = L\<^sup>2" using o(1,9) L2 by (simp add: power2_eq_square)
  then have len_x: "sqrt (i\<^sup>2 + h\<^sup>2) = L" using Lpos by simp
  have len_z: "sqrt (a\<^sup>2 + d\<^sup>2) = L" by (simp add: L_def)
  define xrot where "xrot = arctan2 h i"
  define yrot where "yrot = arctan2 (- g) L"
  define zrot where "zrot = arctan2 d a"
  have cos_x: "cos xrot = i / L" and sin_x: "sin xrot = h / L"
    by (simp_all add: xrot_def cos_arctan2 [OF hi] sin_arctan2 [OF hi] len_x)
  have cos_y: "cos yrot = L" and sin_y: "sin yrot = - g"
    using Lpos by (simp_all add: yrot_def cos_arctan2 sin_arctan2 len_y)
  have cos_z: "cos zrot = a / L" and sin_z: "sin zrot = d / L"
    by (simp_all add: zrot_def cos_arctan2 [OF ad] sin_arctan2 [OF ad] len_z)
  have cof: "i = a * e - b * d" "h = c * d - a * f"
    using o by (rule rot_cofactors)+
  have b: "b * (L * L) = - (a * g * h) - d * i"
    unfolding L2 using o(4) cof(1) by algebra
  have e: "e * (L * L) = a * i - d * g * h"
    unfolding L2 using o(4) cof(1) by algebra
  have c: "c * (L * L) = d * h - a * g * i"
    unfolding L2 using o(5) cof(2) by algebra
  have f: "f * (L * L) = - (d * g * i) - a * h"
    unfolding L2 using o(5) cof(2) by algebra
  have "axisAnglesToRotMat xrot yrot zrot = R"
    unfolding axisAnglesToRotMat_eq R cos_x sin_x cos_y sin_y cos_z sin_z
    using Lpos b e c f by (simp add: field_simps)
  moreover have "rotMatToAxisAngles R = (xrot, yrot, zrot)"
    using far by (simp add: rotMatToAxisAngles_def R xrot_def yrot_def zrot_def L_def Let_def)
  ultimately show ?thesis by simp
qed

theorem rotMatToAxisAngles_roundtrip_witness:
  "is_rotation [[0, - 1, 0], [1, 0, 0], [0, 0, 1]] \<and>
   \<not> isclose (sqrt (([[0, - 1, 0], [1, 0, 0], [0, 0, 1]] ! 0 ! 0)\<^sup>2
                  + ([[0, - 1, 0], [1, 0, 0], [0, 0, 1]] ! 1 ! 0)\<^sup>2)) 0 \<and>
   (case rotMatToAxisAngles [[0, - 1, 0], [1, 0, 0], [0, 0, 1]] of
      (xrot, yrot, zrot) \<Rightarrow> axisAnglesToRotMat xrot yrot zrot)
     = [[0, - 1, 0], [1, 0, 0], [0, 0, 1]]"
  using rotMatToAxisAngles_roundtrip [of "[[0, - 1, 0], [1, 0, 0], [0, 0, 1]]"]
  by (simp add: is_rotation_def orthonormal_def is_mat_def np_defs det3_def isclose_def)

subsection \<open>Gimbal lock\<close>

lemma gimbal_matrix:
  "axisAnglesToRotMat x (pi / 2) z =
     [[0, sin (x - z), cos (x - z)], [0, cos (x - z), - sin (x - z)], [- 1, 0, 0]]"
  by (simp add: axisAnglesToRotMat_eq sin_diff cos_diff algebra_simps)

lemma gimbal_angles:
  assumes "- pi < x - z" "x - z \<le> pi"
  shows "rotMatToAxisAngles (axisAnglesToRotMat x (pi / 2) z) = (x - z, pi / 2, 0)"
  using arctan2_sin_cos [OF _ assms, of 1]
  by (simp add: gimbal_matrix rotMatToAxisAngles_def isclose_def arctan2_def [of 1 0])

text \<open>
  Claim C3. For the rotation matrix that \<open>axisAnglesToRotMat\<close> builds from the angles
  \<open>(0.5, pi/2, 0.7)\<close>, \<open>rotMatToAxisAngles\<close> takes the gimbal-lock branch: it returns
  the z angle \<open>0\<close>, with the x angle \<open>-0.2\<close> and the y angle \<open>pi/2\<close>, and
  \<open>axisAnglesToRotMat\<close> applied to these three angles gives the original matrix again.
  The function is total: the branch returns a value and signals no error.
\<close>

theorem gimbal_lock_roundtrip:
  "rotMatToAxisAngles (axisAnglesToRotMat (1 / 2) (pi / 2) (7 / 10)) = (- (1 / 5), pi / 2, 0) \<and>
   axisAnglesToRotMat (- (1 / 5)) (pi / 2) 0 = axisAnglesToRotMat (1 / 2) (pi / 2) (7 / 10)"
proof -
  have "- pi < (1 / 2 - 7 / 10 :: real)" "(1 / 2 - 7 / 10 :: real) \<le> pi"
    using pi_ge_two by simp_all
  from gimbal_angles [OF this] show ?thesis
    by (simp add: gimbal_matrix)
qed

subsection \<open>Decomposing a composed matrix\<close>

lemma vdot3: "vdot [p0, p1, p2] [q0, q1, q2] = p0 * q0 + p1 * q1 + p2 * q2"
  by (simp add: vdot_def)

lemma vsub3: "vsub [p0, p1, p2] [q0, q1, q2] = [p0 - q0, p1 - q1, p2 - q2]"
  by (simp add: vsub_def)

lemma smul3: "smul k [p0, p1, p2] = [k * p0, k * p1, k * p2]"
  by (simp add: smul_def)

lemma sdiv3: "sdiv [p0, p1, p2] k = [p0 / k, p1 / k, p2 / k]"
  by (simp add: sdiv_def)

lemma rows_of_affine:
  "map (take 3) (take 3 (mT [[p0, q0, r0, t0], [p1, q1, r1, t1], [p2, q2, r2, t2], w]))
     = [[p0, p1, p2], [q0, q1, q2], [r0, r1, r2]]"
  "take 3 (mT [[p0, q0, r0, t0], [p1, q1, r1, t1], [p2, q2, r2, t2], [w0, w1, w2, w3]] ! 3)
     = [t0, t1, t2]"
  by (simp_all add: np_defs)

text \<open>
  On rows that are orthogonal already, the orthogonalisation of \<open>decompose\<close> changes
  nothing: the scales are the lengths of the rows and all three shears are zero.
\<close>

lemma decompose_shears_orthogonal:
  assumes pq: "p0 * q0 + p1 * q1 + p2 * q2 = 0"
    and pr: "p0 * r0 + p1 * r1 + p2 * r2 = 0"
    and qr: "q0 * r0 + q1 * r1 + q2 * r2 = 0"
  defines "ly \<equiv> sqrt (q0 * q0 + q1 * q1 + q2 * q2)"
    and "lz \<equiv> sqrt (r0 * r0 + r1 * r1 + r2 * r2)"
  shows "decompose_shears [[p0, q0, r0, t0], [p1, q1, r1, t1], [p2, q2, r2, t2], w] =
     \<lparr>M1 = [p0, p1, p2], M2 = [q0 / ly, q1 / ly, q2 / ly], M3 = [r0 / lz, r1 / lz, r2 / lz],
      sx = sqrt (p0 * p0 + p1 * p1 + p2 * p2), sy = ly, sz = lz, sxy = 0, sxz = 0, syz = 0\<rparr>"
proof -
  have qr': "q0 * r0 / ly + q1 * r1 / ly + q2 * r2 / ly = 0"
  proof -
    have "q0 * r0 / ly + q1 * r1 / ly + q2 * r2 / ly = (q0 * r0 + q1 * r1 + q2 * r2) / ly"
      by (simp add: add_divide_distrib)
    then show ?thesis by (simp add: qr)
  qed
  show ?thesis
    unfolding decompose_shears_def Let_def rows_of_affine
    by (simp add: vdot3 vsub3 smul3 sdiv3 pq pr qr' ly_def [symmetric] lz_def [symmetric])
qed

lemma sqrt_scaled_unit:
  fixes s :: real
  assumes "a * a + d * d + g * g = 1"
  shows "sqrt (a * s * (a * s) + d * s * (d * s) + g * s * (g * s)) = \<bar>s\<bar>"
proof -
  have "a * s * (a * s) + d * s * (d * s) + g * s * (g * s) = s\<^sup>2"
    using assms by algebra
  then show ?thesis by simp
qed

lemma div_abs_sgn:
  fixes s :: real
  shows "x * s / \<bar>s\<bar> = x * sgn s"
  by (cases "s = 0") (simp_all add: sgn_real_def abs_real_def)

lemma decompose_shears_scaled_rotation:
  fixes a :: real
  assumes o: "a * a + d * d + g * g = 1" "b * b + e * e + h * h = 1" "c * c + f * f + i * i = 1"
    "a * b + d * e + g * h = 0" "a * c + d * f + g * i = 0" "b * c + e * f + h * i = 0"
  shows "decompose_shears
           [[a * s0, b * s1, c * s2, t0], [d * s0, e * s1, f * s2, t1],
            [g * s0, h * s1, i * s2, t2], w] =
     \<lparr>M1 = [a * s0, d * s0, g * s0],
      M2 = [b * sgn s1, e * sgn s1, h * sgn s1],
      M3 = [c * sgn s2, f * sgn s2, i * sgn s2],
      sx = \<bar>s0\<bar>, sy = \<bar>s1\<bar>, sz = \<bar>s2\<bar>, sxy = 0, sxz = 0, syz = 0\<rparr>"
proof -
  have "a * s0 * (b * s1) + d * s0 * (e * s1) + g * s0 * (h * s1) = 0"
    "a * s0 * (c * s2) + d * s0 * (f * s2) + g * s0 * (i * s2) = 0"
    "b * s1 * (c * s2) + e * s1 * (f * s2) + h * s1 * (i * s2) = 0"
    using o(4,5,6) by algebra+
  from decompose_shears_orthogonal [OF this] show ?thesis
    by (simp add: sqrt_scaled_unit o div_abs_sgn)
qed

lemma det3_scaled_rotation:
  fixes a :: real
  assumes "a * (e * i - f * h) - b * (d * i - f * g) + c * (d * h - e * g) = 1"
  shows "det3 [[a * s0, d * s0, g * s0], [b * k1, e * k1, h * k1], [c * k2, f * k2, i * k2]]
           = s0 * k1 * k2"
proof -
  have "det3 [[a * s0, d * s0, g * s0], [b * k1, e * k1, h * k1], [c * k2, f * k2, i * k2]]
      = s0 * k1 * k2 * (a * (e * i - f * h) - b * (d * i - f * g) + c * (d * h - e * g))"
    by (simp add: det3_def algebra_simps)
  with assms show ?thesis by simp
qed

lemma sgn_prod_neg:
  fixes s0 :: real
  assumes "s0 \<noteq> 0" "s1 \<noteq> 0" "s2 \<noteq> 0"
  shows "s0 * sgn s1 * sgn s2 < 0 \<longleftrightarrow> s0 * s1 * s2 < 0"
  using assms by (auto simp: sgn_real_def mult_less_0_iff zero_less_mult_iff)

lemma compose_RotMat:
  "\<exists>t0 t1 t2.
     compose [s0, s1, s2] offsets (RotMat [[a, b, c], [d, e, f], [g, h, i]]) origin =
       [[a * s0, b * s1, c * s2, t0], [d * s0, e * s1, f * s2, t1],
        [g * s0, h * s1, i * s2, t2], [0, 0, 0, 1]] \<and>
     (origin = None \<longrightarrow> t0 = offsets ! 0 \<and> t1 = offsets ! 1 \<and> t2 = offsets ! 2)"
  by (cases origin) (simp_all add: compose_def np_defs)

lemma compose_AxisAngles:
  "compose scales offsets (AxisAngles x y z) origin =
     compose scales offsets (RotMat (axisAnglesToRotMat x y z)) origin"
  by (simp add: compose_def)

lemma decompose_scales_rotation:
  assumes rot: "is_rotation R" and nz: "s0 \<noteq> 0" "s1 \<noteq> 0" "s2 \<noteq> 0"
  shows "fst (decompose (compose [s0, s1, s2] offsets (RotMat R) origin) angles) =
           [if s0 * s1 * s2 < 0 then - \<bar>s0\<bar> else \<bar>s0\<bar>, \<bar>s1\<bar>, \<bar>s2\<bar>]"
proof -
  from rot obtain a b c d e f g h i where R: "R = [[a, b, c], [d, e, f], [g, h, i]]"
    and o: "a * a + d * d + g * g = 1" "b * b + e * e + h * h = 1" "c * c + f * f + i * i = 1"
    "a * b + d * e + g * h = 0" "a * c + d * f + g * i = 0" "b * c + e * f + h * i = 0"
    and det: "a * (e * i - f * h) - b * (d * i - f * g) + c * (d * h - e * g) = 1"
    by (rule is_rotation_entries)
  obtain t0 t1 t2 where
    "compose [s0, s1, s2] offsets (RotMat R) origin =
       [[a * s0, b * s1, c * s2, t0], [d * s0, e * s1, f * s2, t1],
        [g * s0, h * s1, i * s2, t2], [0, 0, 0, 1]]"
    unfolding R using compose_RotMat by blast
  then show ?thesis
    by (simp add: decompose_def decompose_rotation_def decompose_shears_scaled_rotation [OF o]
        det3_scaled_rotation [OF det] sgn_prod_neg [OF nz] Let_def)
qed

text \<open>
  Composing from positive scales and angles inside the range of \<open>arctan2\<close>, away from
  gimbal lock, and decomposing again gives the scales, offsets and angles back.
\<close>

lemma decompose_compose_angles:
  assumes s: "0 < s0" "0 < s1" "0 < s2"
    and x: "- pi < x" "x \<le> pi" and y: "- (pi / 2) < y" "y < pi / 2"
    and z: "- pi < z" "z \<le> pi"
    and far: "1 / 10 ^ 8 < s0 * cos y"
  shows "decompose (compose [s0, s1, s2] [t0, t1, t2] (AxisAngles x y z) None) True =
           ([s0, s1, s2], [t0, t1, t2], AxisAngles x y z)"
proof -
  define a b c d e f g h i where abc: "a = cos z * cos y"
    "b = cos z * sin y * sin x - sin z * cos x" "c = cos z * sin y * cos x + sin z * sin x"
    "d = sin z * cos y" "e = cos z * cos x + sin z * sin y * sin x"
    "f = sin z * sin y * cos x - cos z * sin x"
    "g = - sin y" "h = cos y * sin x" "i = cos y * cos x"
  have R: "axisAnglesToRotMat x y z = [[a, b, c], [d, e, f], [g, h, i]]"
    by (simp add: axisAnglesToRotMat_eq abc)
  have "is_rotation [[a, b, c], [d, e, f], [g, h, i]]"
    using axisAnglesToRotMat_rotation [of x y z] by (simp add: R)
  then have o: "a * a + d * d + g * g = 1" "b * b + e * e + h * h = 1"
    "c * c + f * f + i * i = 1"
    "a * b + d * e + g * h = 0" "a * c + d * f + g * i = 0" "b * c + e * f + h * i = 0"
    and det: "a * (e * i - f * h) - b * (d * i - f * g) + c * (d * h - e * g) = 1"
    by (auto elim!: is_rotation_entries)
  have cy: "0 < cos y" using y by (rule cos_gt_zero_pi)
  have C: "compose [s0, s1, s2] [t0, t1, t2] (AxisAngles x y z) None =
       [[a * s0, b * s1, c * s2, t0], [d * s0, e * s1, f * s2, t1],
        [g * s0, h * s1, i * s2, t2], [0, 0, 0, 1]]"
    using compose_RotMat [of s0 s1 s2 "[t0, t1, t2]" a b c d e f g h i None]
    by (auto simp: compose_AxisAngles R)
  have "(a * s0)\<^sup>2 + (d * s0)\<^sup>2 = (s0 * cos y)\<^sup>2"
    unfolding abc using sin_cos_squared_add [of z] by algebra
  then have len: "sqrt ((a * s0)\<^sup>2 + (d * s0)\<^sup>2) = s0 * cos y"
    using s(1) cy by simp
  have ax: "arctan2 h i = x"
    unfolding abc using arctan2_sin_cos [OF cy x] .
  have "arctan2 (s0 * sin y) (s0 * cos y) = y"
    using s(1) y pi_gt_zero by (intro arctan2_sin_cos) linarith+
  then have ay: "arctan2 (- (g * s0)) (s0 * cos y) = y"
    by (simp add: abc mult.commute)
  have "arctan2 (s0 * cos y * sin z) (s0 * cos y * cos z) = z"
    using s(1) cy z by (intro arctan2_sin_cos) simp_all
  then have az: "arctan2 (d * s0) (a * s0) = z"
    by (simp add: abc mult.commute mult.left_commute)
  have nc: "\<not> isclose (s0 * cos y) 0"
    using far s(1) cy by (simp add: isclose_zero)
  have "rotMatToAxisAngles [[a * s0, b, c], [d * s0, e, f], [g * s0, h, i]] = (x, y, z)"
    by (simp add: rotMatToAxisAngles_def len nc ax ay az)
  moreover have "det3 [[a * s0, d * s0, g * s0], [b, e, h], [c, f, i]] = s0"
    using det3_scaled_rotation [OF det, of s0 1 1] by simp
  ultimately show ?thesis
    using s by (simp add: C decompose_def decompose_rotation_def
        decompose_shears_scaled_rotation [OF o] np_defs Let_def)
qed

lemma cos_fifth: "9 / 10 < cos (1 / 5 :: real)"
proof -
  have "sin (1 / 5 :: real) \<le> 1 / 5" by (intro sin_x_le_x) simp
  moreover have "0 \<le> sin (1 / 5 :: real)" using pi_ge_two by (intro sin_ge_zero) simp_all
  ultimately have "(sin (1 / 5 :: real))\<^sup>2 \<le> (1 / 5)\<^sup>2" by (intro power_mono) simp_all
  with sin_cos_squared_add [of "1 / 5 :: real"] have "(9 / 10)\<^sup>2 < (cos (1 / 5 :: real))\<^sup>2"
    by (simp add: power2_eq_square)
  moreover have "0 < cos (1 / 5 :: real)" using pi_ge_two by (intro cos_gt_zero_pi) simp_all
  ultimately show ?thesis using power2_less_imp_less by fastforce
qed

text \<open>
  Claim C1. For the scales \<open>(2, 3, 4)\<close>, the offsets \<open>(1, 2, 3)\<close> and the rotation
  angles \<open>(0.1, 0.2, 0.3)\<close>, \<open>decompose (compose s t angles)\<close> returns the scales \<open>s\<close>,
  the translations \<open>t\<close> and the three angles. In exact arithmetic the returned values
  are equal to the inputs, so each is within \<open>1e-6\<close> of its input.
\<close>

theorem compose_decompose_identity:
  "decompose (compose [2, 3, 4] [1, 2, 3] (AxisAngles (1 / 10) (1 / 5) (3 / 10)) None) True =
     ([2, 3, 4], [1, 2, 3], AxisAngles (1 / 10) (1 / 5) (3 / 10))"
proof (rule decompose_compose_angles)
  show "1 / 10 ^ 8 < 2 * cos (1 / 5 :: real)" using cos_fifth by simp
qed (use pi_ge_two in simp_all)

text \<open>
  A reflection in y is folded into the x scale: for the scales \<open>(2, -3, 4)\<close> and no
  rotation the returned scales are \<open>(-2, 3, 4)\<close>.
\<close>

lemma reflection_in_y_folded:
  "fst (decompose (compose [2, - 3, 4] [0, 0, 0] (AxisAngles 0 0 0) None) True) = [- 2, 3, 4]"
  by (simp add: compose_def axisAnglesToRotMat_eq np_defs decompose_def decompose_rotation_def
      decompose_shears_def vsub_def smul_def sdiv_def det3_def neg_def Let_def)

text \<open>
  Claim C4. Composing an affine with a reflection, that is from scales of which exactly
  one is negative and the others positive, with a rotation given by three angles or by an
  orthonormal matrix of determinant \<open>+1\<close>, and decomposing it folds the negative
  determinant into the sign of the returned x scale: the returned scales are
  \<open>(-|sx|, |sy|, |sz|)\<close>, so the sign of the returned \<open>sx\<close> is the sign of the product of
  the input scales, whichever component was negative, the y and z scales are returned
  positive, and nothing else reports the reflection.
\<close>

theorem decompose_folds_reflection:
  assumes "case rotations of AxisAngles xrot yrot zrot \<Rightarrow> True | RotMat R \<Rightarrow> is_rotation R"
    and "(s0 < 0 \<and> 0 < s1 \<and> 0 < s2) \<or> (0 < s0 \<and> s1 < 0 \<and> 0 < s2) \<or>
         (0 < s0 \<and> 0 < s1 \<and> s2 < 0)"
  shows "fst (decompose (compose [s0, s1, s2] offsets rotations origin) angles) =
           [- \<bar>s0\<bar>, \<bar>s1\<bar>, \<bar>s2\<bar>] \<and>
         sgn (fst (decompose (compose [s0, s1, s2] offsets rotations origin) angles) ! 0) =
           sgn (s0 * s1 * s2)"
proof -
  obtain R where R: "is_rotation R"
    "compose [s0, s1, s2] offsets rotations origin
       = compose [s0, s1, s2] offsets (RotMat R) origin"
  proof (cases rotations)
    case (AxisAngles x y z)
    then show ?thesis
      using that [of "axisAnglesToRotMat x y z"] axisAnglesToRotMat_rotation compose_AxisAngles
      by simp
  next
    case (RotMat R)
    with assms(1) that show ?thesis by simp
  qed
  from assms(2) have nz: "s0 \<noteq> 0" "s1 \<noteq> 0" "s2 \<noteq> 0" and neg: "s0 * s1 * s2 < 0"
    by (auto simp: mult_less_0_iff zero_less_mult_iff)
  from decompose_scales_rotation [OF R(1) nz, of offsets origin angles] neg
  have "fst (decompose (compose [s0, s1, s2] offsets rotations origin) angles) =
           [- \<bar>s0\<bar>, \<bar>s1\<bar>, \<bar>s2\<bar>]"
    by (simp add: R(2))
  moreover have "sgn (- \<bar>s0\<bar>) = sgn (s0 * s1 * s2)"
    using nz neg by (simp add: sgn_real_def)
  ultimately show ?thesis by simp
qed

theorem decompose_folds_reflection_witness:
  "is_rotation [[0, - 1, 0], [1, 0, 0], [0, 0, 1]] \<and>
   fst (decompose (compose [2, 3, - 4] [1, 2, 3]
          (RotMat [[0, - 1, 0], [1, 0, 0], [0, 0, 1]]) None) True) = [- 2, 3, 4] \<and>
   sgn (fst (decompose (compose [2, 3, - 4] [1, 2, 3]
          (RotMat [[0, - 1, 0], [1, 0, 0], [0, 0, 1]]) None) True) ! 0) = - 1"
  using decompose_folds_reflection [of "RotMat [[0, - 1, 0], [1, 0, 0], [0, 0, 1]]"
      2 3 "- 4" "[1, 2, 3]" None True]
  by (simp add: is_rotation_def orthonormal_def is_mat_def np_defs det3_def)

text \<open>
  The source divides \<^verbatim>\<open>M2\<close> and \<^verbatim>\<open>M3\<close> by their lengths but never \<^verbatim>\<open>M1\<close>, so the
  matrix returned with \<^verbatim>\<open>angles=False\<close> keeps the x scale in its first column. The
  angles are not affected, since \<open>arctan2\<close> does not change when both arguments are
  multiplied by the same positive number.
\<close>

lemma decompose_first_column_scaled:
  "decompose (compose [2, 3, 4] [0, 0, 0] (AxisAngles 0 0 0) None) False =
     ([2, 3, 4], [0, 0, 0], RotMat [[2, 0, 0], [0, 1, 0], [0, 0, 1]])"
  by (simp add: compose_def axisAnglesToRotMat_eq np_defs decompose_def decompose_rotation_def
      decompose_shears_def vsub_def smul_def sdiv_def det3_def neg_def Let_def)

subsection \<open>The shears are bookkeeping only\<close>

lemma decompose_shears_corrected_fields:
  "M1 (decompose_shears_corrected xform) = M1 (decompose_shears xform)"
  "M2 (decompose_shears_corrected xform) = M2 (decompose_shears xform)"
  "M3 (decompose_shears_corrected xform) = M3 (decompose_shears xform)"
  "sx (decompose_shears_corrected xform) = sx (decompose_shears xform)"
  "sy (decompose_shears_corrected xform) = sy (decompose_shears xform)"
  "sz (decompose_shears_corrected xform) = sz (decompose_shears xform)"
  by (simp_all add: decompose_shears_corrected_def decompose_shears_def Let_def)

text \<open>
  The two readings of line 138 do differ in the local \<^verbatim>\<open>syz\<close>: on the sheared
  matrix below the source computes \<open>1/4\<close>, the variant \<open>1/2\<close>.
\<close>

lemma syz_differs:
  "syz (decompose_shears [[1, 1, 1, 0], [0, 1, 1, 0], [0, 0, 2, 0], [0, 0, 0, 1]]) = 1 / 4"
  "syz (decompose_shears_corrected [[1, 1, 1, 0], [0, 1, 1, 0], [0, 0, 2, 0], [0, 0, 0, 1]])
     = 1 / 2"
  by (simp_all add: decompose_shears_def decompose_shears_corrected_def np_defs
      vsub_def smul_def sdiv_def Let_def)

text \<open>
  Claim C9. For every affine, \<open>decompose\<close> returns the same scales, translations and
  rotations as the variant in which line 138 reads \<^verbatim>\<open>syz = syz / sz\<close>; more generally
  the value returned from the locals does not depend on the shears \<^verbatim>\<open>sxy\<close>,
  \<^verbatim>\<open>sxz\<close> and \<^verbatim>\<open>syz\<close> at all.
\<close>

theorem decompose_ignores_shears:
  "decompose_corrected xform angles = decompose xform angles \<and>
   decompose_rotation xform (l\<lparr>sxy := a, sxz := b, syz := c\<rparr>) angles =
     decompose_rotation xform l angles"
  by (simp add: decompose_corrected_def decompose_def decompose_rotation_def
      decompose_shears_corrected_fields Let_def)

subsection \<open>Transforming points\<close>

lemma replicate3: "replicate 3 x = [x, x, x]"
  by (simp add: numeral_3_eq_3)

lemmas ab_defs = lower_def lower_char_def corner_points_def transform_def
  fillPoints_def py_index_def zeros_def setcol_def vadd_def enumerate_eq_zip take_axes_def
  replicate3

text \<open>
  Claim C6. Transforming the one-coordinate point \<open>(5,)\<close>, with the axes restricted to
  axis 2, through the affine that scales all three axes by 2 and translates by
  \<open>(0, 0, 1)\<close> returns the scalar 11: \<^verbatim>\<open>_fillPoints\<close> embeds the point as
  \<open>(0, 0, 5)\<close>, and the transformed point is projected back to axis 2.
\<close>

theorem transform_axis_projection:
  "fillPoints (Arr1 [5]) (Axis 2) = Inr (Arr2 [[0, 0, 5]]) \<and>
   transform (Arr1 [5]) [[2, 0, 0, 0], [0, 2, 0, 0], [0, 0, 2, 1], [0, 0, 0, 1]] (Axis 2) False
     = Inr (Scalar 11)"
  by (simp add: ab_defs np_defs)

lemma transform_corners:
  assumes "is_mat 4 4 xform"
  shows "transform (Arr2 (corner_points x0 y0 z0 x y z)) xform NoAxes False
           = Inr (Arr2 (world xform (corner_points x0 y0 z0 x y z)))"
proof -
  from assms obtain a0 a1 a2 a3 b0 b1 b2 b3 c0 c1 c2 c3 d0 d1 d2 d3
    where "xform = [[a0, a1, a2, a3], [b0, b1, b2, b3], [c0, c1, c2, c3], [d0, d1, d2, d3]]"
    by (rule mat44)
  then show ?thesis
    by (simp add: world_def ab_defs np_defs algebra_simps)
qed

subsection \<open>The bounds of a voxel grid\<close>

lemma take3_shape:
  fixes shape :: "int list"
  assumes "3 \<le> length shape"
  shows "take 3 shape = [shape ! 0, shape ! 1, shape ! 2]"
proof -
  from assms have "length (take 3 shape) = 3" by simp
  then obtain a b c where t: "take 3 shape = [a, b, c]" using list3 by blast
  have "take 3 shape ! 0 = shape ! 0" "take 3 shape ! 1 = shape ! 1"
    "take 3 shape ! 2 = shape ! 2"
    by simp_all
  with t show ?thesis by simp
qed

lemma mT_map_map:
  assumes "tx \<noteq> []"
  shows "mT (map (\<lambda>r. map (g r) axs) tx) = map (\<lambda>a. map (\<lambda>r. g r a) tx) axs"
proof -
  from assms obtain r rs where tx: "tx = r # rs" by (cases tx) auto
  have n: "ncols (map (\<lambda>r. map (g r) axs) tx) = length axs"
    by (simp add: ncols_def tx)
  have "map (col (map (\<lambda>r. map (g r) axs) tx)) [0..<length axs]
      = map (\<lambda>j. map (\<lambda>r. g r (axs ! j)) tx) [0..<length axs]"
    by (rule map_cong) (simp_all add: col_def)
  also have "\<dots> = map (\<lambda>a. map (\<lambda>r. g r a) tx) (map (\<lambda>j. axs ! j) [0..<length axs])"
    by (simp add: comp_def)
  also have "\<dots> = map (\<lambda>a. map (\<lambda>r. g r a) tx) axs"
    by (simp only: map_nth)
  finally show ?thesis by (simp add: mT_def n)
qed

lemma voxel_corners_eq:
  "voxel_corners og boundary offset (real_of_int (shape ! 0)) (real_of_int (shape ! 1))
     (real_of_int (shape ! 2)) = grid_corners shape og boundary offset"
  by (simp add: voxel_corners_def grid_corners_def Let_def)

text \<open>
  With valid keywords, a shape of three dimensions and a \<open>(4, 4)\<close> affine,
  \<open>axisBounds\<close> returns the minimum and the maximum, over the eight transformed corners,
  of each requested coordinate, or raises the IndexError of an axis out of range.
\<close>

lemma axisBounds_eq:
  assumes shape: "3 \<le> length shape" and xform: "is_mat 4 4 xform"
    and og: "og = (if lower origin = ''center'' then ''centre'' else lower origin)"
    and origin: "og \<in> {''centre'', ''corner''}"
    and boundary: "boundary \<in> {Some ''low'', Some ''high'', Some ''both'', None}"
  shows "axisBounds shape xform axes origin boundary offset =
          (let tx = world xform (grid_corners shape og boundary offset);
               lo = map (\<lambda>a. Min (set (col tx (the (py_index 3 a))))) (requested axes);
               hi = map (\<lambda>a. Max (set (col tx (the (py_index 3 a))))) (requested axes)
           in if \<not> list_all (\<lambda>a. py_index 3 a \<noteq> None) (requested axes) then Inl IndexError
              else case axes of Axis a \<Rightarrow> Inr (ScalarBounds (lo ! 0) (hi ! 0))
                              | _ \<Rightarrow> Inr (ArrayBounds lo hi))"
proof -
  let ?P = "grid_corners shape og boundary offset"
  have nc: "ncols (world xform ?P) = 3"
    by (simp add: grid_corners_def corner_points_def Let_def world_def ncols_def)
  have W: "world xform ?P \<noteq> []"
    by (simp add: world_def grid_corners_def corner_points_def Let_def)
  have tr: "transform (Arr2 ?P) xform NoAxes False = Inr (Arr2 (world xform ?P))"
    unfolding grid_corners_def Let_def by (rule transform_corners [OF xform])
  have mt: "mT (map (\<lambda>r. map (\<lambda>a. r ! the (py_index 3 a)) axs) (world xform ?P))
      = map (\<lambda>a. col (world xform ?P) (the (py_index 3 a))) axs" for axs
    using mT_map_map [OF W, of "\<lambda>r a. r ! the (py_index 3 a)" axs] by (simp add: col_def)
  have "axisBounds shape xform axes origin boundary offset =
     (case take_axes 3 (world xform ?P) (requested axes) of
        Inl e \<Rightarrow> Inl e
      | Inr txa \<Rightarrow>
          (let lo = map (\<lambda>c. Min (set c)) (mT txa);
               hi = map (\<lambda>c. Max (set c)) (mT txa)
           in case axes of Axis a \<Rightarrow> Inr (ScalarBounds (lo ! 0) (hi ! 0))
                         | _ \<Rightarrow> Inr (ArrayBounds lo hi)))"
    using origin boundary unfolding axisBounds_def og [symmetric] Let_def
    by (cases axes)
      (simp_all add: take3_shape [OF shape] voxel_corners_eq [simplified] tr nc requested_def
        split: sum.splits)
  then show ?thesis
    by (simp add: take_axes_def mt Let_def comp_def)
qed


lemma py_index_valid: "py_index 3 a \<noteq> None \<longleftrightarrow> - 3 \<le> a \<and> a < 3"
  by (auto simp: py_index_def)


text \<open>
  Claim C7. For a shape of three dimensions and a \<open>(4, 4)\<close> affine, \<open>axisBounds\<close>
  raises a ValueError if and only if the lowercased origin is none of \<open>centre\<close>,
  \<open>center\<close> and \<open>corner\<close>, or the boundary is none of \<open>low\<close>, \<open>high\<close>, \<open>both\<close>
  and \<open>None\<close>.
\<close>

theorem axisBounds_invalid_argument:
  assumes "3 \<le> length shape" and "is_mat 4 4 xform"
  shows "raises_ValueError (axisBounds shape xform axes origin boundary offset) \<longleftrightarrow>
           lower origin \<notin> {''centre'', ''center'', ''corner''} \<or>
           boundary \<notin> {Some ''low'', Some ''high'', Some ''both'', None}"
proof (cases "lower origin \<in> {''centre'', ''center'', ''corner''} \<and>
              boundary \<in> {Some ''low'', Some ''high'', Some ''both'', None}")
  case True
  define og where "og = (if lower origin = ''center'' then ''centre'' else lower origin)"
  with True have "og \<in> {''centre'', ''corner''}" by auto
  from axisBounds_eq [OF assms og_def this, of boundary axes offset] True
  have "\<not> raises_ValueError (axisBounds shape xform axes origin boundary offset)"
    by (cases axes) (simp_all add: raises_ValueError_def Let_def)
  with True show ?thesis by blast
next
  case False
  then have "raises_ValueError (axisBounds shape xform axes origin boundary offset)"
    by (auto simp: axisBounds_def raises_ValueError_def Let_def)
  with False show ?thesis by blast
qed

theorem axisBounds_invalid_argument_witness:
  "3 \<le> length [10, 10, 10 :: int] \<and> is_mat 4 4 (eye 4) \<and>
   \<not> raises_ValueError (axisBounds [10, 10, 10] (eye 4) (Axis 2) ''Center'' (Some ''both'')
        (1 / 10000)) \<and>
   raises_ValueError (axisBounds [10, 10, 10] (eye 4) (Axis 2) ''middle'' (Some ''both'')
        (1 / 10000))"
  using axisBounds_invalid_argument [of "[10, 10, 10]" "eye 4" "Axis 2" "''Center''"
      "Some ''both''" "1 / 10000"]
    axisBounds_invalid_argument [of "[10, 10, 10]" "eye 4" "Axis 2" "''middle''"
      "Some ''both''" "1 / 10000"]
  by (simp add: is_mat_def eye4 lower_def lower_char_def)

lemma Min_le_Max_list:
  fixes c :: "real list"
  assumes "c \<noteq> []"
  shows "Min (set c) \<le> Max (set c)"
proof -
  from assms obtain x where "x \<in> set c" by (cases c) auto
  then have "Min (set c) \<le> x" "x \<le> Max (set c)" by simp_all
  then show ?thesis by linarith
qed

lemma col_world_nonempty: "col (world xform (grid_corners shape og boundary offset)) j \<noteq> []"
  by (simp add: col_def world_def grid_corners_def corner_points_def Let_def)

text \<open>
  Claim C10. For every shape of three dimensions, every \<open>(4, 4)\<close> affine, every valid
  origin and boundary keyword and all requested axes in range, \<open>axisBounds\<close> returns a
  pair of bounds, one entry for each requested axis, with \<open>low \<le> high\<close> in every
  component: both are taken over the same eight transformed corners.
\<close>

theorem axisBounds_ordered:
  assumes "3 \<le> length shape" and "is_mat 4 4 xform"
    and "lower origin \<in> {''centre'', ''center'', ''corner''}"
    and "boundary \<in> {Some ''low'', Some ''high'', Some ''both'', None}"
    and "\<forall>a \<in> set (requested axes). - 3 \<le> a \<and> a < 3"
  shows "\<exists>b. axisBounds shape xform axes origin boundary offset = Inr b \<and>
             length (bounds_lo b) = length (requested axes) \<and>
             list_all2 (\<le>) (bounds_lo b) (bounds_hi b)"
proof -
  define og where "og = (if lower origin = ''center'' then ''centre'' else lower origin)"
  with assms(3) have og: "og \<in> {''centre'', ''corner''}" by auto
  have valid: "list_all (\<lambda>a. py_index 3 a \<noteq> None) (requested axes)"
    unfolding list_all_iff using assms(5) py_index_valid by blast
  note eq = axisBounds_eq [OF assms(1,2) og_def og assms(4), of axes offset]
  show ?thesis
  proof (cases axes)
    case (Axis a)
    with eq valid show ?thesis
      by (simp add: Let_def requested_def bounds_lo_def bounds_hi_def
          Min_le_Max_list [OF col_world_nonempty])
  next
    case NoAxes
    with eq valid show ?thesis
      by (simp add: Let_def requested_def bounds_lo_def bounds_hi_def
          Min_le_Max_list [OF col_world_nonempty])
  next
    case (Axes as)
    with eq valid show ?thesis
      by (simp add: Let_def requested_def bounds_lo_def bounds_hi_def list_all2_conv_all_nth
          Min_le_Max_list [OF col_world_nonempty])
  qed
qed

theorem axisBounds_ordered_witness:
  "\<exists>b. axisBounds [10, 20, 30] [[0, - 1, 0, 5], [2, 0, 0, 0], [0, 0, 3, - 7], [0, 0, 0, 1]]
          (Axes [2, - 3]) ''CORNER'' (Some ''low'') (1 / 10000) = Inr b \<and>
        length (bounds_lo b) = length (requested (Axes [2, - 3])) \<and>
        list_all2 (\<le>) (bounds_lo b) (bounds_hi b)"
  using axisBounds_ordered [of "[10, 20, 30]"
      "[[0, - 1, 0, 5], [2, 0, 0, 0], [0, 0, 3, - 7], [0, 0, 0, 1]]" "''CORNER''"
      "Some ''low''" "Axes [2, - 3]" "1 / 10000"]
  by (simp add: is_mat_def lower_def lower_char_def requested_def)

subsection \<open>Storing a number as a \<^verbatim>\<open>float32\<close>\<close>






lemma float32_expo:
  "float32 x = 2 powr (of_int (expo x) - 23)
     * of_int (rint (x / 2 powr (of_int (expo x) - 23)))"
  by (simp add: float32_def expo_def Let_def)






text \<open>
  Rounding to the nearest \<^verbatim>\<open>float32\<close> keeps the order of two numbers, across
  binades and signs.
\<close>

lemma float32_zero: "float32 0 = 0"
  by (simp add: float32_expo rint_def)









subsection \<open>Offsetting both boundaries\<close>














end
